theory Spec2Isabelle
  imports Main
begin

section \<open>The data of pkg/chartmuseum/server.go\<close>

text \<open>
  The file declares \<open>Router\<close>, \<open>Server\<close> and \<open>ServerOptions\<close> and the functions
  \<open>NewRouter\<close>, \<open>NewServer\<close> and \<open>Listen\<close>. The types it takes from other files and
  packages are type parameters here: \<open>'l\<close> is \<open>Logger\<close>, \<open>'i\<close> is \<open>repo.Index\<close>,
  \<open>'b\<close> is \<open>storage.Backend\<close>, \<open>'o\<close> is \<open>storage.Object\<close> and \<open>'f\<close> is the logging
  function \<open>contextLoggingFn\<close> returns. A Go pointer or interface value is an
  \<open>option\<close> (\<open>None\<close> is \<open>nil\<close>), and so is a slice, whose zero value \<open>nil\<close> is not the
  empty slice \<open>[]storage.Object{}\<close>. A Go \<open>error\<close> is its message; \<open>None\<close> is the
  \<open>nil\<close> error.
\<close>

type_synonym error = string

text \<open>\<open>sync.Mutex\<close>: the zero value is an unlocked mutex.\<close>

datatype Mutex = Unlocked | Locked

text \<open>A channel of the two waiter lists, known by its identity.\<close>

datatype Chan = Chan nat

text \<open>
  The handlers \<open>NewRouter\<close> installs on the gin engine, in the order of the calls to
  \<open>Use\<close>; \<open>Prometheus\<close> carries the subsystem name given to \<open>NewPrometheus\<close> and
  the name of the function assigned to \<open>ReqCntURLLabelMappingFn\<close>.
\<close>

datatype 'l Middleware =
    LocationDefault
  | RequestId
  | LoggingMiddleware "'l option"
  | Recovery
  | Prometheus string string

text \<open>
  \<open>Router\<close> embeds the gin engine: the handlers in use and the routes registered, each
  a method and a path.
\<close>

record 'l Router =
  handlers :: "'l Middleware list"
  routes :: "(string \<times> string) list"

record ('l, 'i, 'b, 'o) Server =
  Logger :: "'l option"
  Router :: "'l Router option"
  RepositoryIndex :: "'i option"
  StorageBackend :: "'b option"
  StorageCache :: "'o list option"
  AllowOverwrite :: bool
  MultiTenancyEnabled :: bool
  AnonymousGet :: bool
  TlsCert :: string
  TlsKey :: string
  ChartPostFormFieldName :: string
  ProvPostFormFieldName :: string
  regenerationLock :: "Mutex option"
  fetchedObjectsLock :: "Mutex option"
  fetchedObjectsChans :: "Chan list option"
  regeneratedIndexesChans :: "Chan list option"

text \<open>
  The fields of \<open>ServerOptions\<close> carry the prefix \<open>opt\<close>: seven of them have the name
  of a field of \<open>Server\<close>.
\<close>

record 'b ServerOptions =
  optStorageBackend :: "'b option"
  optLogJSON :: bool
  optDebug :: bool
  optEnableAPI :: bool
  optAllowOverwrite :: bool
  optEnableMetrics :: bool
  optEnableMultiTenancy :: bool
  optAnonymousGet :: bool
  optChartURL :: string
  optTlsCert :: string
  optTlsKey :: string
  optUsername :: string
  optPassword :: string
  optChartPostFormFieldName :: string
  optProvPostFormFieldName :: string

text \<open>
  \<open>gin.Context\<close>, as far as this file reads it: the request URL and the route
  parameters. \<open>zeroContext\<close> is \<open>gin.Context{}\<close>.
\<close>

record Context =
  requestURL :: string
  params :: "(string \<times> string) list"

definition zeroContext :: Context where
  "zeroContext = \<lparr>requestURL = [], params = []\<rparr>"

text \<open>
  What the file calls and does not define. \<open>NewLogger\<close>, \<open>setRoutes\<close>,
  \<open>setMultiTenancyRoutes\<close>, \<open>contextLoggingFn\<close> and \<open>syncRepositoryIndex\<close> belong to
  other files of the package and \<open>NewIndex\<close> to package \<open>repo\<close>. The three methods
  with effects on the receiver return the server they leave behind;
  \<open>syncRepositoryIndex\<close> returns the index and the error as well.
  \<open>contextLoggingFn\<close> only returns the logging function, and \<open>NewIndex\<close> the
  pointer to the index it makes.
\<close>

record ('l, 'i, 'b, 'o, 'f) Env =
  NewLogger :: "bool \<Rightarrow> bool \<Rightarrow> 'l option \<times> error option"
  NewIndex :: "string \<Rightarrow> 'i option"
  setRoutes :: "('l, 'i, 'b, 'o) Server \<Rightarrow> string \<Rightarrow> string \<Rightarrow> bool \<Rightarrow> ('l, 'i, 'b, 'o) Server"
  setMultiTenancyRoutes :: "('l, 'i, 'b, 'o) Server \<Rightarrow> ('l, 'i, 'b, 'o) Server"
  contextLoggingFn :: "('l, 'i, 'b, 'o) Server \<Rightarrow> Context \<Rightarrow> 'f"
  syncRepositoryIndex ::
    "('l, 'i, 'b, 'o) Server \<Rightarrow> 'f \<Rightarrow> ('l, 'i, 'b, 'o) Server \<times> 'i option \<times> error option"

text \<open>
  The calls a function of this file makes to the outside, in the order it makes them:
  the second component of what \<open>NewServer\<close> and \<open>Listen\<close> return. \<open>NilPointerPanic\<close>
  ends a list: the function dereferenced a \<open>nil\<close> pointer and made no further call.
\<close>

datatype Call =
    CallNewLogger bool bool
  | CallGinSetMode string
  | CallGinNew
  | CallNewPrometheus string
  | CallPrometheusUse
  | CallNewIndex string
  | CallDebugw string
  | CallSetMultiTenancyRoutes
  | CallSetRoutes string string bool
  | CallContextLoggingFn Context
  | CallSyncRepositoryIndex
  | CallInfow string int
  | CallRun int
  | CallRunTLS int string string
  | CallFatal
  | NilPointerPanic

section \<open>NewRouter, NewServer and Listen\<close>

text \<open>
  \<open>NewRouter\<close> (lines 64 to 74): release mode, a new engine, four handlers, and with
  metrics enabled the Prometheus handler, with \<open>mapURLWithParamsBackToRouteTemplate\<close>
  as its label mapping. \<open>p.Use(engine)\<close> installs the handler and registers the
  route \<open>GET /metrics\<close> on the engine.
\<close>

definition NewRouter :: "'l option \<Rightarrow> bool \<Rightarrow> 'l Router \<times> Call list" where
  "NewRouter logger enableMetrics =
     (let engine = \<lparr>handlers = [], routes = []\<rparr>;
          engine = engine\<lparr>handlers :=
            handlers engine @ [LocationDefault, RequestId, LoggingMiddleware logger, Recovery]\<rparr>
      in if enableMetrics
         then (engine\<lparr>handlers := handlers engine
                         @ [Prometheus ''chartmuseum'' ''mapURLWithParamsBackToRouteTemplate''],
                       routes := routes engine @ [(''GET'', ''/metrics'')]\<rparr>,
               [CallGinSetMode ''release'', CallGinNew, CallNewPrometheus ''chartmuseum'',
                CallPrometheusUse])
         else (engine, [CallGinSetMode ''release'', CallGinNew]))"

text \<open>\<open>new(Server)\<close>: every field has its zero value.\<close>

definition zeroServer :: "('l, 'i, 'b, 'o) Server" where
  "zeroServer =
     \<lparr>Logger = None, Router = None, RepositoryIndex = None, StorageBackend = None,
      StorageCache = None, AllowOverwrite = False, MultiTenancyEnabled = False,
      AnonymousGet = False, TlsCert = [], TlsKey = [], ChartPostFormFieldName = [],
      ProvPostFormFieldName = [], regenerationLock = None, fetchedObjectsLock = None,
      fetchedObjectsChans = None, regeneratedIndexesChans = None\<rparr>"

text \<open>
  The composite literal of lines 85 to 100. The two waiter lists are not named in it
  and keep their zero value.
\<close>

definition serverLiteral ::
  "('l, 'i, 'b, 'o, 'f) Env \<Rightarrow> 'b ServerOptions \<Rightarrow> 'l option \<Rightarrow> 'l Router
     \<Rightarrow> ('l, 'i, 'b, 'o) Server" where
  "serverLiteral env options logger router =
     \<lparr>Logger = logger,
      Router = Some router,
      RepositoryIndex = NewIndex env (optChartURL options),
      StorageBackend = optStorageBackend options,
      StorageCache = Some [],
      AllowOverwrite = optAllowOverwrite options,
      MultiTenancyEnabled = optEnableMultiTenancy options,
      AnonymousGet = optAnonymousGet options,
      TlsCert = optTlsCert options,
      TlsKey = optTlsKey options,
      ChartPostFormFieldName = optChartPostFormFieldName options,
      ProvPostFormFieldName = optProvPostFormFieldName options,
      regenerationLock = Some Unlocked,
      fetchedObjectsLock = Some Unlocked,
      fetchedObjectsChans = None,
      regeneratedIndexesChans = None\<rparr>"

text \<open>
  \<open>NewServer\<close> (lines 77 to 111). A logger error ends it at line 80 with a new zero
  server and the \<open>nil\<close> error. Otherwise \<open>err\<close> is \<open>nil\<close> from line 78 on, and only
  line 108 assigns it again.
\<close>

definition NewServer ::
  "('l, 'i, 'b, 'o, 'f) Env \<Rightarrow> 'b ServerOptions
     \<Rightarrow> (('l, 'i, 'b, 'o) Server \<times> error option) \<times> Call list" where
  "NewServer env options =
     (case NewLogger env (optLogJSON options) (optDebug options) of
        (logger, err) \<Rightarrow>
          if err \<noteq> None
          then ((zeroServer, None), [CallNewLogger (optLogJSON options) (optDebug options)])
          else
            let (router, routerCalls) = NewRouter logger (optEnableMetrics options);
                server = serverLiteral env options logger router;
                calls = [CallNewLogger (optLogJSON options) (optDebug options)] @ routerCalls
                          @ [CallNewIndex (optChartURL options)]
            in if MultiTenancyEnabled server
               then ((setMultiTenancyRoutes env server, err),
                     calls @ [CallDebugw ''Multi-Tenancy Enabled'', CallSetMultiTenancyRoutes])
               else
                 let server = setRoutes env server (optUsername options) (optPassword options)
                                (optEnableAPI options);
                     log = contextLoggingFn env server zeroContext;
                     (server, _, err) = syncRepositoryIndex env server log
                 in ((server, err),
                     calls @ [CallSetRoutes (optUsername options) (optPassword options)
                                (optEnableAPI options),
                              CallContextLoggingFn zeroContext, CallSyncRepositoryIndex]))"

text \<open>
  \<open>Listen\<close> (lines 114 to 123): the only place of the file that starts serving. The
  port stands for the address \<open>":<port>"\<close>; \<open>Fatal\<close> logs what \<open>Run\<close> returned.
  \<open>Run\<close> and \<open>RunTLS\<close> are methods of the engine \<open>Router\<close> embeds by pointer (line
  20): on a server whose \<open>Router\<close> is \<open>nil\<close> the call dereferences \<open>nil\<close> and
  panics before anything is served. \<open>Infow\<close> and \<open>Fatal\<close> are methods of \<open>Logger\<close>, a
  type of another file; the call is listed whatever the receiver is, as \<open>Debugw\<close> is
  in \<open>NewServer\<close>.
\<close>

definition Listen :: "('l, 'i, 'b, 'o) Server \<Rightarrow> int \<Rightarrow> Call list" where
  "Listen server port =
     [CallInfow ''Starting ChartMuseum'' port]
       @ (if TlsCert server \<noteq> [] \<and> TlsKey server \<noteq> []
          then (case Router server of
                  None \<Rightarrow> [NilPointerPanic]
                | Some router \<Rightarrow> [CallRunTLS port (TlsCert server) (TlsKey server), CallFatal])
          else (case Router server of
                  None \<Rightarrow> [NilPointerPanic]
                | Some router \<Rightarrow> [CallRun port, CallFatal]))"

text \<open>
  Counting in a list of calls: the calls to \<open>syncRepositoryIndex\<close>, and the calls
  that serve traffic (\<open>Run\<close> and \<open>RunTLS\<close> of the router).
\<close>

definition syncCalls :: "Call list \<Rightarrow> nat" where
  "syncCalls cs = length (filter (\<lambda>c. c = CallSyncRepositoryIndex) cs)"

fun isServing :: "Call \<Rightarrow> bool" where
  "isServing (CallRun _) = True"
| "isServing (CallRunTLS _ _ _) = True"
| "isServing _ = False"

definition servingCalls :: "Call list \<Rightarrow> nat" where
  "servingCalls cs = length (filter isServing cs)"

section \<open>The read of the published index\<close>



section \<open>The repository index builder\<close>

text \<open>
  \<open>BuildIndex\<close> and the data it works on are not in server.go, which only holds the
  index (\<open>RepositoryIndex\<close>) and the object cache (\<open>StorageCache\<close>). Every definition
  of this section follows the words of the specification.
\<close>

text \<open>
  Modelled from the spec: the error kinds of the storage backend interface, which is
  missing from the sources: not found, permission denied, transient or unavailable.
\<close>

datatype StorageError = NotFound | PermissionDenied | Unavailable

text \<open>
  Modelled from the spec: the missing type StorageObject, one artifact under a
  tenant's prefix: path, size, last-modified timestamp and content identifier.
\<close>

record StorageObject =
  objPath :: string
  objSize :: nat
  objLastModified :: int
  objETag :: string

text \<open>
  Modelled from the spec: an identifier of the pre-release part of a semantic version,
  missing from the sources. Semantic versioning has numeric and alphanumeric ones.
\<close>

datatype PreId = NumericId nat | AlphaId string

text \<open>
  Modelled from the spec: a semantic version, missing from the sources: major, minor
  and patch numbers and the pre-release segments (none for a release).
\<close>

record SemVer =
  major :: nat
  minor :: nat
  patch :: nat
  prerelease :: "PreId list"

text \<open>
  Modelled from the spec: the metadata extracted or derived from a package artifact,
  a missing type: name, version and digest, and the creation time of the entry.
\<close>

record ChartMeta =
  metaName :: string
  metaVersion :: SemVer
  metaDigest :: string
  metaCreated :: int

text \<open>
  Modelled from the spec: what reading one object gives, a missing type. The object is
  not a package artifact (a detached signature), or it is unreadable or malformed,
  with the reason, or it is a package with its metadata. The reading itself is I/O and
  a parameter \<open>readMeta\<close> of the builder.
\<close>

datatype Extracted = NotPackage | Unreadable string | Package ChartMeta

text \<open>
  Modelled from the spec: the missing type ChartVersionEntry: name, version, content
  digest, download URLs and creation time.
\<close>

record ChartVersionEntry =
  entryName :: string
  entryVersion :: SemVer
  entryDigest :: string
  entryURLs :: "string list"
  entryCreated :: int

text \<open>
  Modelled from the spec: a recorded warning, missing from the sources: the path of
  the object skipped and the reason.
\<close>

type_synonym Warning = "string \<times> string"

text \<open>
  Modelled from the spec: the missing type RepositoryIndex: the mapping from package
  name to its sequence of entries, kept as an association list, with the generation
  timestamp and the format version tag.
\<close>

record RepositoryIndex =
  entries :: "(string \<times> ChartVersionEntry list) list"
  generated :: int
  apiVersion :: string

text \<open>
  Modelled from the spec: the lexicographic comparison that semantic-version
  comparison uses on identifier lists and on the characters of an identifier, missing
  with the rest of the builder. A proper prefix is smaller.
\<close>

fun lexLess :: "('a \<Rightarrow> 'a \<Rightarrow> bool) \<Rightarrow> 'a list \<Rightarrow> 'a list \<Rightarrow> bool" where
  "lexLess lt [] [] = False"
| "lexLess lt [] (y # ys) = True"
| "lexLess lt (x # xs) [] = False"
| "lexLess lt (x # xs) (y # ys) = (lt x y \<or> (x = y \<and> lexLess lt xs ys))"

text \<open>
  Modelled from the spec: the order of two characters in semantic-version comparison
  (missing from the sources), which is the order of their codes.
\<close>

definition charLess :: "char \<Rightarrow> char \<Rightarrow> bool" where
  "charLess a b = ((of_char a :: nat) < of_char b)"

text \<open>
  Modelled from the spec: the order of two pre-release identifiers in
  semantic-version comparison (missing from the sources): numeric ones by value, a
  numeric one before an alphanumeric one, alphanumeric ones character by character.
\<close>

fun preIdLess :: "PreId \<Rightarrow> PreId \<Rightarrow> bool" where
  "preIdLess (NumericId a) (NumericId b) = (a < b)"
| "preIdLess (NumericId a) (AlphaId b) = True"
| "preIdLess (AlphaId a) (NumericId b) = False"
| "preIdLess (AlphaId a) (AlphaId b) = lexLess charLess a b"

text \<open>
  Modelled from the spec: pre-release segments sort before the release, in the missing
  comparison. A version with segments is smaller than one without; two with segments
  compare segment by segment.
\<close>

definition prereleaseLess :: "PreId list \<Rightarrow> PreId list \<Rightarrow> bool" where
  "prereleaseLess p q =
     (if p = [] then False
      else if q = [] then True
      else lexLess preIdLess p q)"

text \<open>
  Modelled from the spec: the missing semantic-version comparison: numeric major, then
  minor, then patch precedence, then the pre-release segments.
\<close>

definition semverLess :: "SemVer \<Rightarrow> SemVer \<Rightarrow> bool" where
  "semverLess a b =
     (if major a \<noteq> major b then major a < major b
      else if minor a \<noteq> minor b then minor a < minor b
      else if patch a \<noteq> patch b then patch a < patch b
      else prereleaseLess (prerelease a) (prerelease b))"

text \<open>
  Modelled from the spec: the entry of one package artifact, a missing step of the
  builder: the extracted name, version and digest, and the absolute download URL, the
  base URL followed by the path.
\<close>

definition entryOf :: "string \<Rightarrow> StorageObject \<Rightarrow> ChartMeta \<Rightarrow> ChartVersionEntry" where
  "entryOf baseURL obj meta =
     \<lparr>entryName = metaName meta, entryVersion = metaVersion meta,
      entryDigest = metaDigest meta, entryURLs = [baseURL @ ''/'' @ objPath obj],
      entryCreated = metaCreated meta\<rparr>"

text \<open>
  Modelled from the spec: the missing ordering step: within a name, entries are
  ordered by version, descending. The entry goes before the first entry of a smaller
  version.
\<close>

fun insertEntry :: "ChartVersionEntry \<Rightarrow> ChartVersionEntry list \<Rightarrow> ChartVersionEntry list" where
  "insertEntry e [] = [e]"
| "insertEntry e (x # xs) =
     (if semverLess (entryVersion x) (entryVersion e) then e # x # xs
      else x # insertEntry e xs)"

text \<open>
  Modelled from the spec: the missing grouping step: entries are grouped by name. The
  entry joins the sequence of its name, or starts one.
\<close>

fun addEntry ::
  "ChartVersionEntry \<Rightarrow> (string \<times> ChartVersionEntry list) list
     \<Rightarrow> (string \<times> ChartVersionEntry list) list" where
  "addEntry e [] = [(entryName e, [e])]"
| "addEntry e ((n, es) # groups) =
     (if n = entryName e then (n, insertEntry e es) # groups
      else (n, es) # addEntry e groups)"

text \<open>
  Modelled from the spec: the missing loop of the builder over the object set. An
  object that is no package artifact is passed over, an unreadable or malformed one
  is skipped with a recorded warning, a package adds its entry.
\<close>

fun buildLoop ::
  "(StorageObject \<Rightarrow> Extracted) \<Rightarrow> string \<Rightarrow> StorageObject list
     \<Rightarrow> (string \<times> ChartVersionEntry list) list \<times> Warning list
     \<Rightarrow> (string \<times> ChartVersionEntry list) list \<times> Warning list" where
  "buildLoop readMeta baseURL [] acc = acc"
| "buildLoop readMeta baseURL (obj # objs) (groups, warnings) =
     buildLoop readMeta baseURL objs
       (case readMeta obj of
          NotPackage \<Rightarrow> (groups, warnings)
        | Unreadable why \<Rightarrow> (groups, warnings @ [(objPath obj, why)])
        | Package meta \<Rightarrow> (addEntry (entryOf baseURL obj meta) groups, warnings))"

text \<open>
  Modelled from the spec: \<open>BuildIndex(objectSet, baseURL) -> (index, error)\<close>, which
  is missing from the sources. The object set is what the listing returned: when
  the listing failed, its error is the error of the build; otherwise the index holds
  the groups, the generation timestamp and the fixed version tag, and comes with the
  warnings recorded.
\<close>

definition BuildIndex ::
  "(StorageObject \<Rightarrow> Extracted) \<Rightarrow> StorageError + StorageObject list \<Rightarrow> string \<Rightarrow> int
     \<Rightarrow> StorageError + RepositoryIndex \<times> Warning list" where
  "BuildIndex readMeta objectSet baseURL now =
     (case objectSet of
        Inl err \<Rightarrow> Inl err
      | Inr objs \<Rightarrow>
          (case buildLoop readMeta baseURL objs ([], []) of
             (groups, warnings) \<Rightarrow>
               Inr (\<lparr>entries = groups, generated = now, apiVersion = ''v1''\<rparr>, warnings)))"

text \<open>
  Modelled from the spec: which objects are the unreadable or malformed ones, by what
  reading them gives; missing with the builder.
\<close>

fun isUnreadable :: "Extracted \<Rightarrow> bool" where
  "isUnreadable (Unreadable _) = True"
| "isUnreadable _ = False"

text \<open>
  Modelled from the spec: the warnings to be recorded for an object set, one for each
  unreadable or malformed object, in the order of the set. It is stated apart from the
  missing loop, to compare the loop with.
\<close>

fun warningsFor :: "(StorageObject \<Rightarrow> Extracted) \<Rightarrow> StorageObject list \<Rightarrow> Warning list" where
  "warningsFor readMeta [] = []"
| "warningsFor readMeta (obj # objs) =
     (case readMeta obj of
        Unreadable why \<Rightarrow> (objPath obj, why) # warningsFor readMeta objs
      | _ \<Rightarrow> warningsFor readMeta objs)"

text \<open>
  Modelled from the spec: version ordering, entries for a name are non-increasing by
  semantic version: no entry is smaller than a later one. The property is about the
  missing builder.
\<close>

definition descending :: "ChartVersionEntry list \<Rightarrow> bool" where
  "descending es = sorted_wrt (\<lambda>a b. \<not> semverLess (entryVersion a) (entryVersion b)) es"

text \<open>
  Modelled from the spec: a group of the index, which the missing builder makes, is in
  order when its sequence is descending and every entry in it has the name of the
  group.
\<close>

definition groupOK :: "string \<times> ChartVersionEntry list \<Rightarrow> bool" where
  "groupOK g = (descending (snd g) \<and> list_all (\<lambda>e. entryName e = fst g) (snd g))"

section \<open>Two environments to run NewServer in\<close>

text \<open>
  In \<open>demoEnv\<close> the logger is its name, the index is the chart URL with the objects
  listed, the backend is the list of objects it holds (none when it cannot be
  reached), and the logging function is the context it was made for. Both route
  functions register routes on the router. \<open>syncRepositoryIndex\<close> lists the backend
  and, when that succeeds, replaces cache and index.
\<close>

definition addRoute ::
  "string \<times> string \<Rightarrow> ('l, 'i, 'b, 'o) Server \<Rightarrow> ('l, 'i, 'b, 'o) Server" where
  "addRoute r server =
     server\<lparr>Router := map_option (\<lambda>rt. rt\<lparr>routes := routes rt @ [r]\<rparr>) (Router server)\<rparr>"

definition demoSync ::
  "(string, string \<times> string list, string list option, string) Server \<Rightarrow> Context
     \<Rightarrow> (string, string \<times> string list, string list option, string) Server
        \<times> (string \<times> string list) option \<times> error option" where
  "demoSync server log =
     (case StorageBackend server of
        Some (Some objects) \<Rightarrow>
          (let index = (case RepositoryIndex server of
                          Some (url, _) \<Rightarrow> (url, objects)
                        | None \<Rightarrow> ([], objects))
           in (server\<lparr>StorageCache := Some objects, RepositoryIndex := Some index\<rparr>,
               Some index, None))
      | _ \<Rightarrow> (server, None, Some ''storage unavailable''))"

definition demoEnv ::
  "(string, string \<times> string list, string list option, string, Context) Env" where
  "demoEnv =
     \<lparr>NewLogger = (\<lambda>logJSON debug. (Some ''logger'', None)),
      NewIndex = (\<lambda>url. Some (url, [])),
      setRoutes = (\<lambda>server username password enableAPI.
                     addRoute (''GET'', ''/index.yaml'') server),
      setMultiTenancyRoutes = addRoute (''GET'', ''/:org/:repo/index.yaml''),
      contextLoggingFn = (\<lambda>server c. c),
      syncRepositoryIndex = demoSync\<rparr>"

text \<open>\<open>noLoggerEnv\<close> is \<open>demoEnv\<close> with a logger that cannot be built.\<close>

definition noLoggerEnv ::
  "(string, string \<times> string list, string list option, string, Context) Env" where
  "noLoggerEnv = demoEnv\<lparr>NewLogger := (\<lambda>logJSON debug. (None, Some ''no logger''))\<rparr>"

definition demoOptions :: "string list option ServerOptions" where
  "demoOptions =
     \<lparr>optStorageBackend = Some (Some [''foo-1.0.0.tgz'']),
      optLogJSON = False, optDebug = False, optEnableAPI = True,
      optAllowOverwrite = False, optEnableMetrics = False,
      optEnableMultiTenancy = False, optAnonymousGet = False,
      optChartURL = ''http://charts'', optTlsCert = [], optTlsKey = [],
      optUsername = [], optPassword = [],
      optChartPostFormFieldName = ''chart'', optProvPostFormFieldName = ''prov''\<rparr>"

text \<open>\<open>tenancyOptions\<close> is \<open>demoOptions\<close> with multi-tenancy enabled.\<close>

definition tenancyOptions :: "string list option ServerOptions" where
  "tenancyOptions = demoOptions\<lparr>optEnableMultiTenancy := True\<rparr>"

section \<open>An object set to build an index from\<close>

text \<open>
  Seven objects: four versions of \<open>foo\<close>, one of \<open>bar\<close>, a signature file and an
  archive that cannot be read. \<open>demoRead\<close> knows the metadata of each by its path.
\<close>

definition demoObject :: "string \<Rightarrow> StorageObject" where
  "demoObject p = \<lparr>objPath = p, objSize = 1024, objLastModified = 1500000000, objETag = p\<rparr>"

definition demoObjects :: "StorageObject list" where
  "demoObjects =
     map demoObject
       [''foo-1.9.0.tgz'', ''broken.tgz'', ''foo-2.0.0.tgz'', ''foo-1.9.0.tgz.prov'',
        ''bar-0.1.0.tgz'', ''foo-2.0.0-rc.1.tgz'', ''foo-1.10.0.tgz'']"

definition demoMeta :: "string \<Rightarrow> nat \<Rightarrow> nat \<Rightarrow> nat \<Rightarrow> PreId list \<Rightarrow> ChartMeta" where
  "demoMeta n ma mi pa pre =
     \<lparr>metaName = n,
      metaVersion = \<lparr>major = ma, minor = mi, patch = pa, prerelease = pre\<rparr>,
      metaDigest = ''sha256'', metaCreated = 1500000000\<rparr>"

definition demoRead :: "StorageObject \<Rightarrow> Extracted" where
  "demoRead obj =
     (if objPath obj = ''foo-1.9.0.tgz'' then Package (demoMeta ''foo'' 1 9 0 [])
      else if objPath obj = ''foo-1.10.0.tgz'' then Package (demoMeta ''foo'' 1 10 0 [])
      else if objPath obj = ''foo-2.0.0-rc.1.tgz''
        then Package (demoMeta ''foo'' 2 0 0 [AlphaId ''rc'', NumericId 1])
      else if objPath obj = ''foo-2.0.0.tgz'' then Package (demoMeta ''foo'' 2 0 0 [])
      else if objPath obj = ''bar-0.1.0.tgz'' then Package (demoMeta ''bar'' 0 1 0 [])
      else if objPath obj = ''broken.tgz'' then Unreadable ''not a gzip archive''
      else NotPackage)"

definition demoFoo :: "ChartVersionEntry list" where
  "demoFoo =
     [entryOf ''http://charts'' (demoObject ''foo-2.0.0.tgz'') (demoMeta ''foo'' 2 0 0 []),
      entryOf ''http://charts'' (demoObject ''foo-2.0.0-rc.1.tgz'')
        (demoMeta ''foo'' 2 0 0 [AlphaId ''rc'', NumericId 1]),
      entryOf ''http://charts'' (demoObject ''foo-1.10.0.tgz'') (demoMeta ''foo'' 1 10 0 []),
      entryOf ''http://charts'' (demoObject ''foo-1.9.0.tgz'') (demoMeta ''foo'' 1 9 0 [])]"

definition demoIndex :: RepositoryIndex where
  "demoIndex =
     \<lparr>entries =
        [(''foo'', demoFoo),
         (''bar'', [entryOf ''http://charts'' (demoObject ''bar-0.1.0.tgz'')
                     (demoMeta ''bar'' 0 1 0 [])])],
      generated = 1600000000, apiVersion = ''v1''\<rparr>"

section \<open>An environment with an index that has entries\<close>





section \<open>NewServer when the logger cannot be built\<close>

text \<open>
  C9. When \<open>NewLogger\<close> returns an error, \<open>NewServer\<close> returns a new zero-valued
  server and the \<open>nil\<close> error, whatever the error and the options are; it has called
  nothing but \<open>NewLogger\<close>. The caller cannot tell the failure from the error
  returned.
\<close>

theorem NewServer_logger_error:
  assumes "snd (NewLogger env (optLogJSON options) (optDebug options)) = Some e"
  shows "NewServer env options =
           ((zeroServer, None), [CallNewLogger (optLogJSON options) (optDebug options)])"
  using assms
  by (cases "NewLogger env (optLogJSON options) (optDebug options)") (simp add: NewServer_def)

theorem NewServer_logger_error_witness:
  "snd (NewLogger noLoggerEnv (optLogJSON demoOptions) (optDebug demoOptions)) = Some ''no logger''
   \<and> NewServer noLoggerEnv demoOptions = ((zeroServer, None), [CallNewLogger False False])"
proof -
  have h: "snd (NewLogger noLoggerEnv (optLogJSON demoOptions) (optDebug demoOptions))
             = Some ''no logger''"
    by (simp add: noLoggerEnv_def)
  show ?thesis
    using h NewServer_logger_error [OF h] by (simp add: demoOptions_def)
qed

section \<open>NewServer when the logger is built\<close>

text \<open>
  With no logger error \<open>NewServer\<close> builds the router and the server of lines 85 to
  100 and takes one of the two branches of line 102.
\<close>

lemma NewServer_logger_ok:
  assumes "snd (NewLogger env (optLogJSON options) (optDebug options)) = None"
  shows "NewServer env options =
     (let logger = fst (NewLogger env (optLogJSON options) (optDebug options));
          router = fst (NewRouter logger (optEnableMetrics options));
          routerCalls = snd (NewRouter logger (optEnableMetrics options));
          server = serverLiteral env options logger router;
          calls = [CallNewLogger (optLogJSON options) (optDebug options)] @ routerCalls
                    @ [CallNewIndex (optChartURL options)]
      in if optEnableMultiTenancy options
         then ((setMultiTenancyRoutes env server, None),
               calls @ [CallDebugw ''Multi-Tenancy Enabled'', CallSetMultiTenancyRoutes])
         else
           let server1 = setRoutes env server (optUsername options) (optPassword options)
                           (optEnableAPI options);
               r = syncRepositoryIndex env server1 (contextLoggingFn env server1 zeroContext)
           in ((fst r, snd (snd r)),
               calls @ [CallSetRoutes (optUsername options) (optPassword options)
                          (optEnableAPI options),
                        CallContextLoggingFn zeroContext, CallSyncRepositoryIndex]))"
  using assms
  by (cases "NewLogger env (optLogJSON options) (optDebug options)")
     (simp add: NewServer_def Let_def serverLiteral_def split: prod.splits)

lemma NewServer_no_logger:
  assumes "snd (NewLogger env (optLogJSON options) (optDebug options)) \<noteq> None"
  shows "NewServer env options =
           ((zeroServer, None), [CallNewLogger (optLogJSON options) (optDebug options)])"
  using assms
  by (cases "NewLogger env (optLogJSON options) (optDebug options)") (simp add: NewServer_def)

lemma syncCalls_NewRouter: "syncCalls (snd (NewRouter logger enableMetrics)) = 0"
  by (simp add: NewRouter_def syncCalls_def Let_def)

lemma servingCalls_NewRouter: "servingCalls (snd (NewRouter logger enableMetrics)) = 0"
  by (simp add: NewRouter_def servingCalls_def Let_def)

lemma servingCalls_Listen:
  "servingCalls (Listen server port) = (if Router server = None then 0 else 1)"
  by (simp add: Listen_def servingCalls_def split: option.splits)

lemma demoEnv_logger:
  "NewLogger demoEnv logJSON debug = (Some ''logger'', None)"
  by (simp add: demoEnv_def)

lemma noLoggerEnv_logger:
  "NewLogger noLoggerEnv logJSON debug = (None, Some ''no logger'')"
  by (simp add: noLoggerEnv_def)

lemma NewServer_demo:
  "NewServer demoEnv demoOptions =
     ((\<lparr>Logger = Some ''logger'',
        Router = Some \<lparr>handlers = [LocationDefault, RequestId,
                                   LoggingMiddleware (Some ''logger''), Recovery],
                       routes = [(''GET'', ''/index.yaml'')]\<rparr>,
        RepositoryIndex = Some (''http://charts'', [''foo-1.0.0.tgz'']),
        StorageBackend = Some (Some [''foo-1.0.0.tgz'']),
        StorageCache = Some [''foo-1.0.0.tgz''], AllowOverwrite = False,
        MultiTenancyEnabled = False, AnonymousGet = False, TlsCert = [], TlsKey = [],
        ChartPostFormFieldName = ''chart'', ProvPostFormFieldName = ''prov'',
        regenerationLock = Some Unlocked, fetchedObjectsLock = Some Unlocked,
        fetchedObjectsChans = None, regeneratedIndexesChans = None\<rparr>,
       None),
      [CallNewLogger False False, CallGinSetMode ''release'', CallGinNew,
       CallNewIndex ''http://charts'', CallSetRoutes [] [] True,
       CallContextLoggingFn zeroContext, CallSyncRepositoryIndex])"
  by (simp add: NewServer_def demoEnv_def demoOptions_def NewRouter_def serverLiteral_def
        addRoute_def demoSync_def Let_def)

lemma NewServer_tenancy:
  "NewServer demoEnv tenancyOptions =
     ((\<lparr>Logger = Some ''logger'',
        Router = Some \<lparr>handlers = [LocationDefault, RequestId,
                                   LoggingMiddleware (Some ''logger''), Recovery],
                       routes = [(''GET'', ''/:org/:repo/index.yaml'')]\<rparr>,
        RepositoryIndex = Some (''http://charts'', []),
        StorageBackend = Some (Some [''foo-1.0.0.tgz'']),
        StorageCache = Some [], AllowOverwrite = False,
        MultiTenancyEnabled = True, AnonymousGet = False, TlsCert = [], TlsKey = [],
        ChartPostFormFieldName = ''chart'', ProvPostFormFieldName = ''prov'',
        regenerationLock = Some Unlocked, fetchedObjectsLock = Some Unlocked,
        fetchedObjectsChans = None, regeneratedIndexesChans = None\<rparr>,
       None),
      [CallNewLogger False False, CallGinSetMode ''release'', CallGinNew,
       CallNewIndex ''http://charts'', CallDebugw ''Multi-Tenancy Enabled'',
       CallSetMultiTenancyRoutes])"
  by (simp add: NewServer_def demoEnv_def tenancyOptions_def demoOptions_def NewRouter_def
        serverLiteral_def addRoute_def Let_def)

lemma NewServer_noLogger_demo:
  "NewServer noLoggerEnv demoOptions = ((zeroServer, None), [CallNewLogger False False])"
  by (simp add: NewServer_no_logger noLoggerEnv_logger demoOptions_def)

section \<open>NewServer with multi-tenancy enabled\<close>

text \<open>
  C10. When multi-tenancy is enabled, \<open>NewServer\<close> performs no priming sync: it
  never calls \<open>syncRepositoryIndex\<close>, whose work the backend listing and the index
  build are. When the logger is built its calls are \<open>NewLogger\<close>, those of
  \<open>NewRouter\<close>, \<open>NewIndex\<close>, \<open>Debugw\<close> and \<open>setMultiTenancyRoutes\<close>, in this order.
  The error it returns is \<open>nil\<close>, whatever the storage backend and the other options
  are.
\<close>

theorem NewServer_multi_tenancy_no_sync:
  assumes "optEnableMultiTenancy options"
  shows "syncCalls (snd (NewServer env options)) = 0
         \<and> snd (fst (NewServer env options)) = None
         \<and> snd (NewServer env options) =
             (if snd (NewLogger env (optLogJSON options) (optDebug options)) = None
              then [CallNewLogger (optLogJSON options) (optDebug options)]
                     @ snd (NewRouter (fst (NewLogger env (optLogJSON options) (optDebug options)))
                              (optEnableMetrics options))
                     @ [CallNewIndex (optChartURL options),
                        CallDebugw ''Multi-Tenancy Enabled'', CallSetMultiTenancyRoutes]
              else [CallNewLogger (optLogJSON options) (optDebug options)])"
proof (cases "snd (NewLogger env (optLogJSON options) (optDebug options)) = None")
  case True
  have "syncCalls (snd (NewRouter (fst (NewLogger env (optLogJSON options) (optDebug options)))
                          (optEnableMetrics options))) = 0"
    by (rule syncCalls_NewRouter)
  with True assms show ?thesis
    by (simp add: NewServer_logger_ok Let_def syncCalls_def)
next
  case False
  then show ?thesis
    by (simp add: NewServer_no_logger syncCalls_def)
qed

theorem NewServer_multi_tenancy_no_sync_witness:
  "optEnableMultiTenancy (tenancyOptions\<lparr>optStorageBackend := Some None\<rparr>)
   \<and> syncCalls (snd (NewServer demoEnv (tenancyOptions\<lparr>optStorageBackend := Some None\<rparr>))) = 0
   \<and> snd (fst (NewServer demoEnv (tenancyOptions\<lparr>optStorageBackend := Some None\<rparr>))) = None
   \<and> snd (NewServer demoEnv (tenancyOptions\<lparr>optStorageBackend := Some None\<rparr>)) =
       [CallNewLogger False False, CallGinSetMode ''release'', CallGinNew,
        CallNewIndex ''http://charts'', CallDebugw ''Multi-Tenancy Enabled'',
        CallSetMultiTenancyRoutes]"
proof -
  have h: "optEnableMultiTenancy (tenancyOptions\<lparr>optStorageBackend := Some None\<rparr>)"
    by (simp add: tenancyOptions_def)
  have sel:
    "optLogJSON (tenancyOptions\<lparr>optStorageBackend := Some None\<rparr>) = False"
    "optDebug (tenancyOptions\<lparr>optStorageBackend := Some None\<rparr>) = False"
    "optEnableMetrics (tenancyOptions\<lparr>optStorageBackend := Some None\<rparr>) = False"
    "optChartURL (tenancyOptions\<lparr>optStorageBackend := Some None\<rparr>) = ''http://charts''"
    by (simp_all add: tenancyOptions_def demoOptions_def)
  show ?thesis
    using h NewServer_multi_tenancy_no_sync
            [OF h, of "demoEnv :: (string, string \<times> string list, string list option, string, Context) Env"]
    by (simp add: demoEnv_logger NewRouter_def sel syncCalls_def)
qed

section \<open>NewServer with multi-tenancy disabled\<close>

text \<open>
  C4, with the condition the code adds: the logger is built. When multi-tenancy is
  disabled and \<open>NewLogger\<close> returns no error, \<open>NewServer\<close> calls
  \<open>syncRepositoryIndex\<close> exactly once, as the last thing it does, on the server
  \<open>setRoutes\<close> left and with the logging function of an empty context; it returns
  the server that sync left and the error of that sync. It starts no serving: \<open>Run\<close>
  and \<open>RunTLS\<close> are called by \<open>Listen\<close> only, on the server returned, once when that
  server has a router and not at all when it has none.
\<close>

theorem NewServer_primes_once:
  assumes "\<not> optEnableMultiTenancy options"
    and "snd (NewLogger env (optLogJSON options) (optDebug options)) = None"
  shows "syncCalls (snd (NewServer env options)) = 1
         \<and> last (snd (NewServer env options)) = CallSyncRepositoryIndex
         \<and> servingCalls (snd (NewServer env options)) = 0
         \<and> servingCalls (Listen (fst (fst (NewServer env options))) port) =
             (if Router (fst (fst (NewServer env options))) = None then 0 else 1)
         \<and> fst (NewServer env options) =
             (let logger = fst (NewLogger env (optLogJSON options) (optDebug options));
                  router = fst (NewRouter logger (optEnableMetrics options));
                  server = setRoutes env (serverLiteral env options logger router)
                             (optUsername options) (optPassword options) (optEnableAPI options);
                  r = syncRepositoryIndex env server (contextLoggingFn env server zeroContext)
              in (fst r, snd (snd r)))"
proof -
  have "syncCalls (snd (NewRouter (fst (NewLogger env (optLogJSON options) (optDebug options)))
                          (optEnableMetrics options))) = 0"
    and "servingCalls (snd (NewRouter (fst (NewLogger env (optLogJSON options) (optDebug options)))
                          (optEnableMetrics options))) = 0"
    by (rule syncCalls_NewRouter, rule servingCalls_NewRouter)
  with assms have "syncCalls (snd (NewServer env options)) = 1
      \<and> last (snd (NewServer env options)) = CallSyncRepositoryIndex
      \<and> servingCalls (snd (NewServer env options)) = 0
      \<and> fst (NewServer env options) =
          (let logger = fst (NewLogger env (optLogJSON options) (optDebug options));
               router = fst (NewRouter logger (optEnableMetrics options));
               server = setRoutes env (serverLiteral env options logger router)
                          (optUsername options) (optPassword options) (optEnableAPI options);
               r = syncRepositoryIndex env server (contextLoggingFn env server zeroContext)
           in (fst r, snd (snd r)))"
    by (simp add: NewServer_logger_ok Let_def syncCalls_def servingCalls_def)
  moreover have "servingCalls (Listen (fst (fst (NewServer env options))) port) =
      (if Router (fst (fst (NewServer env options))) = None then 0 else 1)"
    by (rule servingCalls_Listen)
  ultimately show ?thesis by blast
qed

theorem NewServer_primes_once_witness:
  "\<not> optEnableMultiTenancy demoOptions
   \<and> snd (NewLogger demoEnv (optLogJSON demoOptions) (optDebug demoOptions)) = None
   \<and> syncCalls (snd (NewServer demoEnv demoOptions)) = 1
   \<and> last (snd (NewServer demoEnv demoOptions)) = CallSyncRepositoryIndex
   \<and> servingCalls (snd (NewServer demoEnv demoOptions)) = 0
   \<and> servingCalls (Listen (fst (fst (NewServer demoEnv demoOptions))) 8080) = 1
   \<and> snd (fst (NewServer demoEnv demoOptions)) = None
   \<and> StorageCache (fst (fst (NewServer demoEnv demoOptions))) = Some [''foo-1.0.0.tgz'']"
proof -
  have h1: "\<not> optEnableMultiTenancy demoOptions"
    by (simp add: demoOptions_def)
  have h2: "snd (NewLogger demoEnv (optLogJSON demoOptions) (optDebug demoOptions)) = None"
    by (simp add: demoEnv_logger)
  have c0: "syncCalls (snd (NewServer demoEnv demoOptions)) = 1
            \<and> last (snd (NewServer demoEnv demoOptions)) = CallSyncRepositoryIndex
            \<and> servingCalls (snd (NewServer demoEnv demoOptions)) = 0
            \<and> servingCalls (Listen (fst (fst (NewServer demoEnv demoOptions))) 8080) =
                (if Router (fst (fst (NewServer demoEnv demoOptions))) = None then 0 else 1)"
    using NewServer_primes_once [OF h1 h2, of 8080] by blast
  have rt: "Router (fst (fst (NewServer demoEnv demoOptions))) \<noteq> None"
    by (simp add: NewServer_demo)
  have c: "syncCalls (snd (NewServer demoEnv demoOptions)) = 1
           \<and> last (snd (NewServer demoEnv demoOptions)) = CallSyncRepositoryIndex
           \<and> servingCalls (snd (NewServer demoEnv demoOptions)) = 0
           \<and> servingCalls (Listen (fst (fst (NewServer demoEnv demoOptions))) 8080) = 1"
    using c0 rt by presburger
  have e: "snd (fst (NewServer demoEnv demoOptions)) = None
           \<and> StorageCache (fst (fst (NewServer demoEnv demoOptions))) = Some [''foo-1.0.0.tgz'']"
    by (simp add: NewServer_demo)
  show ?thesis
    using h1 h2 c e by blast
qed

text \<open>
  C4 as it is written fails when the logger cannot be built: with multi-tenancy
  disabled \<open>NewServer\<close> then returns at line 80 without any sync, and its \<open>nil\<close>
  error is not the error of a sync.
\<close>

theorem NewServer_primes_once_counterexample:
  "\<not> optEnableMultiTenancy demoOptions
   \<and> syncCalls (snd (NewServer noLoggerEnv demoOptions)) = 0
   \<and> snd (NewServer noLoggerEnv demoOptions) = [CallNewLogger False False]"
proof -
  have "\<not> optEnableMultiTenancy demoOptions"
    by (simp add: demoOptions_def)
  moreover have "syncCalls (snd (NewServer noLoggerEnv demoOptions)) = 0"
    by (simp add: NewServer_noLogger_demo syncCalls_def)
  moreover have "snd (NewServer noLoggerEnv demoOptions) = [CallNewLogger False False]"
    by (simp add: NewServer_noLogger_demo)
  ultimately show ?thesis by simp
qed

section \<open>The index before the first successful sync\<close>






section \<open>The order of semantic versions\<close>

text \<open>
  \<open>semverLess\<close> is a strict total order: irreflexive, transitive, and two versions of
  which neither is smaller are the same version. So "not smaller than" is "greater
  or equal".
\<close>

lemma lexLess_irrefl:
  assumes "\<And>x. \<not> lt x x"
  shows "\<not> lexLess lt xs xs"
  using assms by (induction xs) auto

lemma lexLess_trans:
  assumes tr: "\<And>x y z. lt x y \<Longrightarrow> lt y z \<Longrightarrow> lt x z"
  shows "lexLess lt xs ys \<Longrightarrow> lexLess lt ys zs \<Longrightarrow> lexLess lt xs zs"
proof (induction xs arbitrary: ys zs)
  case Nil
  then show ?case by (cases ys; cases zs) auto
next
  case (Cons x xs)
  show ?case
  proof (cases ys)
    case Nil
    with Cons.prems show ?thesis by simp
  next
    case ys: (Cons y ys')
    show ?thesis
    proof (cases zs)
      case Nil
      with Cons.prems ys show ?thesis by simp
    next
      case zs: (Cons z zs')
      from Cons.prems ys zs
      have xy: "lt x y \<or> (x = y \<and> lexLess lt xs ys')"
        and yz: "lt y z \<or> (y = z \<and> lexLess lt ys' zs')"
        by simp_all
      have "lt x z \<or> (x = z \<and> lexLess lt xs zs')"
        using xy yz tr Cons.IH by blast
      with zs show ?thesis by simp
    qed
  qed
qed

lemma charLess_irrefl: "\<not> charLess a a"
  by (simp add: charLess_def)

lemma charLess_trans: "charLess a b \<Longrightarrow> charLess b c \<Longrightarrow> charLess a c"
  by (simp add: charLess_def)

lemma preIdLess_irrefl: "\<not> preIdLess a a"
  by (cases a) (simp_all add: lexLess_irrefl charLess_irrefl)

lemma preIdLess_trans: "preIdLess a b \<Longrightarrow> preIdLess b c \<Longrightarrow> preIdLess a c"
  by (cases a; cases b; cases c) (auto intro: lexLess_trans[where lt = charLess, OF charLess_trans])

lemma prereleaseLess_irrefl: "\<not> prereleaseLess p p"
  by (simp add: prereleaseLess_def lexLess_irrefl preIdLess_irrefl)

lemma prereleaseLess_trans:
  "prereleaseLess p q \<Longrightarrow> prereleaseLess q r \<Longrightarrow> prereleaseLess p r"
  by (auto simp: prereleaseLess_def split: if_splits
           intro: lexLess_trans[where lt = preIdLess, OF preIdLess_trans])

lemma semverLess_iff:
  "semverLess a b \<longleftrightarrow>
     major a < major b
     \<or> (major a = major b \<and> minor a < minor b)
     \<or> (major a = major b \<and> minor a = minor b \<and> patch a < patch b)
     \<or> (major a = major b \<and> minor a = minor b \<and> patch a = patch b
          \<and> prereleaseLess (prerelease a) (prerelease b))"
  by (simp add: semverLess_def)

lemma semverLess_irrefl: "\<not> semverLess a a"
  by (simp add: semverLess_def prereleaseLess_irrefl)

lemma semverLess_trans:
  assumes ab: "semverLess a b" and bc: "semverLess b c"
  shows "semverLess a c"
proof -
  have p: "prereleaseLess (prerelease a) (prerelease c)"
    if "prereleaseLess (prerelease a) (prerelease b)"
      and "prereleaseLess (prerelease b) (prerelease c)"
    using that by (rule prereleaseLess_trans)
  from ab bc p show ?thesis
    unfolding semverLess_iff by (elim disjE conjE) simp_all
qed

lemma semverLess_asym: "semverLess a b \<Longrightarrow> \<not> semverLess b a"
  using semverLess_trans semverLess_irrefl by blast

lemma lexLess_total:
  assumes tot: "\<And>x y. \<not> lt x y \<Longrightarrow> \<not> lt y x \<Longrightarrow> x = y"
  shows "\<not> lexLess lt xs ys \<Longrightarrow> \<not> lexLess lt ys xs \<Longrightarrow> xs = ys"
proof (induction xs arbitrary: ys)
  case Nil
  then show ?case by (cases ys) auto
next
  case (Cons x xs)
  show ?case
  proof (cases ys)
    case Nil
    with Cons.prems show ?thesis by simp
  next
    case ys: (Cons y ys')
    from Cons.prems ys have nxy: "\<not> lt x y" and nyx: "\<not> lt y x" by auto
    then have xy: "x = y" by (rule tot)
    with Cons.prems ys have "\<not> lexLess lt xs ys'" "\<not> lexLess lt ys' xs" by auto
    then have "xs = ys'" by (rule Cons.IH)
    with xy ys show ?thesis by simp
  qed
qed

lemma charLess_total: "\<not> charLess a b \<Longrightarrow> \<not> charLess b a \<Longrightarrow> a = b"
  by (simp add: charLess_def)

lemma stringLess_total:
  "\<not> lexLess charLess a b \<Longrightarrow> \<not> lexLess charLess b a \<Longrightarrow> a = b"
  by (rule lexLess_total[where lt = charLess]) (rule charLess_total)

lemma preIdLess_total: "\<not> preIdLess a b \<Longrightarrow> \<not> preIdLess b a \<Longrightarrow> a = b"
  by (cases a; cases b) (auto dest: stringLess_total)

lemma preListLess_total:
  "\<not> lexLess preIdLess p q \<Longrightarrow> \<not> lexLess preIdLess q p \<Longrightarrow> p = q"
  by (rule lexLess_total[where lt = preIdLess]) (rule preIdLess_total)

lemma prereleaseLess_total:
  "\<not> prereleaseLess p q \<Longrightarrow> \<not> prereleaseLess q p \<Longrightarrow> p = q"
  by (auto simp: prereleaseLess_def split: if_splits dest: preListLess_total)

lemma semverLess_total:
  assumes ab: "\<not> semverLess a b" and ba: "\<not> semverLess b a"
  shows "(a :: SemVer) = b"
proof -
  have "\<not> major a < major b" "\<not> major b < major a"
    using ab ba by (simp_all add: semverLess_iff)
  then have m: "major a = major b" by simp
  have "\<not> minor a < minor b" "\<not> minor b < minor a"
    using ab ba m by (simp_all add: semverLess_iff)
  then have n: "minor a = minor b" by simp
  have "\<not> patch a < patch b" "\<not> patch b < patch a"
    using ab ba m n by (simp_all add: semverLess_iff)
  then have q: "patch a = patch b" by simp
  have "\<not> prereleaseLess (prerelease a) (prerelease b)"
    "\<not> prereleaseLess (prerelease b) (prerelease a)"
    using ab ba m n q by (simp_all add: semverLess_iff)
  then have "prerelease a = prerelease b"
    by (rule prereleaseLess_total)
  with m n q show ?thesis by simp
qed

lemma semverLess_prerelease:
  "semverLess (v\<lparr>prerelease := p\<rparr>) (v\<lparr>prerelease := []\<rparr>) = (p \<noteq> [])"
  by (simp add: semverLess_def prereleaseLess_def)

lemma semverLess_numeric:
  "semverLess \<lparr>major = 1, minor = 9, patch = 0, prerelease = []\<rparr>
              \<lparr>major = 1, minor = 10, patch = 0, prerelease = []\<rparr>"
  by (simp add: semverLess_def)

section \<open>The entries of a name are in descending order\<close>

lemma set_insertEntry: "set (insertEntry e es) = insert e (set es)"
  by (induction es) auto

lemma descending_insertEntry:
  "descending es \<Longrightarrow> descending (insertEntry e es)"
proof (induction es)
  case Nil
  then show ?case by (simp add: descending_def)
next
  case (Cons x xs)
  show ?case
  proof (cases "semverLess (entryVersion x) (entryVersion e)")
    case True
    have "\<not> semverLess (entryVersion e) (entryVersion y)" if "y \<in> set (x # xs)" for y
    proof
      assume ey: "semverLess (entryVersion e) (entryVersion y)"
      with True have xy: "semverLess (entryVersion x) (entryVersion y)"
        by (rule semverLess_trans)
      from that have "y = x \<or> y \<in> set xs" by simp
      then show False
      proof
        assume "y = x"
        with xy show False by (simp add: semverLess_irrefl)
      next
        assume "y \<in> set xs"
        with Cons.prems xy show False by (auto simp: descending_def)
      qed
    qed
    with Cons.prems True show ?thesis by (auto simp: descending_def)
  next
    case False
    with Cons show ?thesis by (auto simp: descending_def set_insertEntry)
  qed
qed

lemma groupOK_insertEntry:
  assumes "groupOK (n, es)" and "entryName e = n"
  shows "groupOK (n, insertEntry e es)"
proof -
  from assms(1) have d: "descending es" and ns: "\<forall>x \<in> set es. entryName x = n"
    by (simp_all add: groupOK_def list_all_iff)
  from d have "descending (insertEntry e es)"
    by (rule descending_insertEntry)
  moreover from ns assms(2) have "\<forall>x \<in> set (insertEntry e es). entryName x = n"
    by (simp add: set_insertEntry)
  ultimately show ?thesis
    by (simp add: groupOK_def list_all_iff)
qed

lemma groupOK_single: "groupOK (entryName e, [e])"
  by (simp add: groupOK_def descending_def)

lemma groupOK_addEntry:
  "list_all groupOK groups \<Longrightarrow> list_all groupOK (addEntry e groups)"
proof (induction groups)
  case Nil
  show ?case by (simp add: groupOK_single)
next
  case (Cons g groups)
  obtain n es where g: "g = (n, es)" by (cases g)
  from Cons.prems g have ok: "groupOK (n, es)" and rest: "list_all groupOK groups"
    by simp_all
  show ?case
  proof (cases "n = entryName e")
    case True
    then have "groupOK (n, insertEntry e es)"
      using ok by (simp add: groupOK_insertEntry)
    with True rest g show ?thesis by simp
  next
    case False
    from rest have "list_all groupOK (addEntry e groups)" by (rule Cons.IH)
    with False ok g show ?thesis by simp
  qed
qed

lemma groupOK_buildLoop:
  "list_all groupOK (fst acc) \<Longrightarrow> list_all groupOK (fst (buildLoop readMeta baseURL objs acc))"
proof (induction objs arbitrary: acc)
  case Nil
  then show ?case by simp
next
  case (Cons obj objs)
  obtain groups warnings where acc: "acc = (groups, warnings)" by (cases acc)
  show ?case
    unfolding acc buildLoop.simps
    by (rule Cons.IH) (use Cons.prems acc in \<open>auto split: Extracted.splits intro: groupOK_addEntry\<close>)
qed

text \<open>
  C6. In every index \<open>BuildIndex\<close> produces, the entries under a package name are in
  descending order of their semantic versions, compared by \<open>semverLess\<close> (numeric
  major, minor and patch, a pre-release below its release): every entry has a version
  greater than or equal to that of each entry after it, and none a smaller one. The
  entries under a name all carry that name.
\<close>

theorem BuildIndex_versions_descending:
  assumes "BuildIndex readMeta objectSet baseURL now = Inr (index, warnings)"
    and "(n, es) \<in> set (entries index)"
  shows "sorted_wrt (\<lambda>a b. semverLess (entryVersion b) (entryVersion a)
                            \<or> entryVersion b = entryVersion a) es
         \<and> sorted_wrt (\<lambda>a b. \<not> semverLess (entryVersion a) (entryVersion b)) es
         \<and> list_all (\<lambda>e. entryName e = n) es"
proof -
  from assms(1) obtain objs where objs: "objectSet = Inr objs"
    by (cases objectSet) (auto simp: BuildIndex_def)
  with assms(1) have "entries index = fst (buildLoop readMeta baseURL objs ([], []))"
    by (auto simp: BuildIndex_def split: prod.splits)
  moreover have "list_all groupOK (fst (buildLoop readMeta baseURL objs ([], [])))"
    by (rule groupOK_buildLoop) simp
  ultimately have "groupOK (n, es)"
    using assms(2) by (simp add: list_all_iff)
  then have d: "sorted_wrt (\<lambda>a b. \<not> semverLess (entryVersion a) (entryVersion b)) es"
    and ns: "list_all (\<lambda>e. entryName e = n) es"
    by (simp_all add: groupOK_def descending_def)
  have "sorted_wrt (\<lambda>a b. semverLess (entryVersion b) (entryVersion a)
                          \<or> entryVersion b = entryVersion a) es"
  proof (rule sorted_wrt_mono_rel [OF _ d])
    fix a b
    assume "\<not> semverLess (entryVersion a) (entryVersion b)"
    then show "semverLess (entryVersion b) (entryVersion a)
               \<or> entryVersion b = entryVersion a"
      using semverLess_total [of "entryVersion b" "entryVersion a"] by blast
  qed
  with d ns show ?thesis by simp
qed

lemma demo_build:
  "BuildIndex demoRead (Inr demoObjects) ''http://charts'' 1600000000
     = Inr (demoIndex, [(''broken.tgz'', ''not a gzip archive'')])"
  by (simp add: BuildIndex_def demoObjects_def demoObject_def demoRead_def demoMeta_def
        demoIndex_def demoFoo_def entryOf_def semverLess_def prereleaseLess_def)

theorem BuildIndex_versions_descending_witness:
  "BuildIndex demoRead (Inr demoObjects) ''http://charts'' 1600000000
     = Inr (demoIndex, [(''broken.tgz'', ''not a gzip archive'')])
   \<and> (''foo'', demoFoo) \<in> set (entries demoIndex)
   \<and> sorted_wrt (\<lambda>a b. semverLess (entryVersion b) (entryVersion a)
                        \<or> entryVersion b = entryVersion a) demoFoo
   \<and> list_all (\<lambda>e. entryName e = ''foo'') demoFoo
   \<and> map entryURLs demoFoo =
       [[''http://charts/foo-2.0.0.tgz''], [''http://charts/foo-2.0.0-rc.1.tgz''],
        [''http://charts/foo-1.10.0.tgz''], [''http://charts/foo-1.9.0.tgz'']]"
proof -
  have h1: "BuildIndex demoRead (Inr demoObjects) ''http://charts'' 1600000000
              = Inr (demoIndex, [(''broken.tgz'', ''not a gzip archive'')])"
    by (rule demo_build)
  have h2: "(''foo'', demoFoo) \<in> set (entries demoIndex)"
    by (simp add: demoIndex_def)
  have u: "map entryURLs demoFoo =
       [[''http://charts/foo-2.0.0.tgz''], [''http://charts/foo-2.0.0-rc.1.tgz''],
        [''http://charts/foo-1.10.0.tgz''], [''http://charts/foo-1.9.0.tgz'']]"
    by (simp add: demoFoo_def entryOf_def demoObject_def)
  show ?thesis
    using h1 h2 u BuildIndex_versions_descending [OF h1 h2] by blast
qed

section \<open>Unreadable objects and a failed listing\<close>

lemma buildLoop_warnings:
  "snd (buildLoop readMeta baseURL objs (groups, warnings))
     = warnings @ warningsFor readMeta objs"
  by (induction objs arbitrary: groups warnings) (auto split: Extracted.splits)

lemma buildLoop_groups_skip:
  "fst (buildLoop readMeta baseURL objs (groups, warnings))
     = fst (buildLoop readMeta baseURL (filter (\<lambda>obj. \<not> isUnreadable (readMeta obj)) objs)
              (groups, warnings'))"
proof (induction objs arbitrary: groups warnings warnings')
  case Nil
  then show ?case by simp
next
  case (Cons obj objs)
  then show ?case by (cases "readMeta obj") auto
qed

lemma warningsFor_readable:
  "warningsFor readMeta (filter (\<lambda>obj. \<not> isUnreadable (readMeta obj)) objs) = []"
  by (induction objs) (auto split: Extracted.splits)

text \<open>
  C8. When the object set could not be obtained, \<open>BuildIndex\<close> fails with the error
  of the listing. When it was obtained, \<open>BuildIndex\<close> does not fail, however many
  objects of the set are unreadable or malformed: it records one warning for each of
  them and returns the index it builds from the set without them.
\<close>

theorem BuildIndex_skips_unreadable:
  "BuildIndex readMeta (Inl err) baseURL now = Inl err
   \<and> (\<exists>index.
         BuildIndex readMeta (Inr objs) baseURL now = Inr (index, warningsFor readMeta objs)
         \<and> BuildIndex readMeta (Inr (filter (\<lambda>obj. \<not> isUnreadable (readMeta obj)) objs))
               baseURL now
             = Inr (index, []))"
proof -
  let ?ok = "filter (\<lambda>obj. \<not> isUnreadable (readMeta obj)) objs"
  let ?r = "buildLoop readMeta baseURL objs ([], [])"
  let ?r' = "buildLoop readMeta baseURL ?ok ([], [])"
  have w: "snd ?r = warningsFor readMeta objs"
    using buildLoop_warnings[where objs = objs and groups = "[]" and warnings = "[]"] by simp
  have w': "snd ?r' = []"
    using buildLoop_warnings[where objs = "?ok" and groups = "[]" and warnings = "[]"]
    by (simp add: warningsFor_readable)
  have g: "fst ?r = fst ?r'"
    by (rule buildLoop_groups_skip)
  obtain gs where r': "?r' = (gs, [])"
    using w' by (cases "?r'") simp
  have r: "?r = (gs, warningsFor readMeta objs)"
    using w g r' by (cases "?r") simp
  show ?thesis
    by (simp add: BuildIndex_def r r')
qed

end
